theory Spec2Isabelle
  imports Main
begin

section \<open>Values of the two wire protocols\<close>

text \<open>
  Both legs exchange JSON text. The handlers of \<^verbatim>\<open>outbound.js\<close> work on the value
  returned by \<^verbatim>\<open>JSON.parse\<close> and hand the argument of \<^verbatim>\<open>JSON.stringify\<close> to
  \<^verbatim>\<open>send\<close>. The model works on these values: a frame that is sent is recorded as the
  object given to \<^verbatim>\<open>JSON.stringify\<close>. Numbers are the integers; strings are byte lists
  (UTF-8). \<open>JUndefined\<close> is the value of a missing property and of a variable that was
  never assigned.
\<close>

datatype json =
    JUndefined
  | JNull
  | JBool bool
  | JNum int
  | JStr string
  | JArr "json list"
  | JObj "(string \<times> json) list"

datatype js_error = TypeError | Error

text \<open>The outcome of \<^verbatim>\<open>JSON.parse\<close>: it throws on text that is not JSON.\<close>

datatype parsed = SyntaxError | Parsed json

text \<open>JavaScript truthiness, as used by \<^verbatim>\<open>if (x)\<close> and \<^verbatim>\<open>x || y\<close>.\<close>

fun truthy :: "json \<Rightarrow> bool" where
  "truthy JUndefined = False"
| "truthy JNull = False"
| "truthy (JBool b) = b"
| "truthy (JNum n) = (n \<noteq> 0)"
| "truthy (JStr s) = (s \<noteq> [])"
| "truthy (JArr xs) = True"
| "truthy (JObj kvs) = True"

fun nullish :: "json \<Rightarrow> bool" where
  "nullish JUndefined = True"
| "nullish JNull = True"
| "nullish v = False"

text \<open>
  \<open>field v k\<close> reads property \<open>k\<close> of a value that is neither \<^verbatim>\<open>null\<close> nor
  \<^verbatim>\<open>undefined\<close>. None of the property names the program reads exists on a string,
  number, boolean or array, so these give \<^verbatim>\<open>undefined\<close>.
\<close>

fun field :: "json \<Rightarrow> string \<Rightarrow> json" where
  "field (JObj kvs) k = (case map_of kvs k of None \<Rightarrow> JUndefined | Some v \<Rightarrow> v)"
| "field v k = JUndefined"

text \<open>\<^verbatim>\<open>v.k\<close>: a TypeError on \<^verbatim>\<open>null\<close> and \<^verbatim>\<open>undefined\<close>.\<close>

definition dot :: "json \<Rightarrow> string \<Rightarrow> js_error + json" where
  "dot v k = (if nullish v then Inl TypeError else Inr (field v k))"

text \<open>\<^verbatim>\<open>v?.k\<close>: \<^verbatim>\<open>undefined\<close> on \<^verbatim>\<open>null\<close> and \<^verbatim>\<open>undefined\<close>.\<close>

definition opt_dot :: "json \<Rightarrow> string \<Rightarrow> json" where
  "opt_dot v k = (if nullish v then JUndefined else field v k)"

text \<open>\<^verbatim>\<open>a || b\<close>.\<close>

definition js_or :: "json \<Rightarrow> json \<Rightarrow> json" where
  "js_or a b = (if truthy a then a else b)"

section \<open>Base64 as Node's Buffer reads and writes it\<close>

text \<open>
  The media case of the telephony handler computes
  \<^verbatim>\<open>Buffer.from(payload, "base64").toString("base64")\<close>. Bytes are naturals below 256.
  The encoder writes the standard alphabet with padding. The decoder is Node's lenient one:
  it also reads the URL-safe characters \<^verbatim>\<open>-\<close> and \<^verbatim>\<open>_\<close>, skips every other
  character that is not in the alphabet, stops at the first \<^verbatim>\<open>=\<close>, and turns two or
  three left-over characters into one or two bytes.
\<close>

definition b64_char :: "nat \<Rightarrow> char" where
  "b64_char n =
     (if n < 26 then char_of (65 + n)
      else if n < 52 then char_of (71 + n)
      else if n < 62 then char_of (n - 4)
      else if n = 62 then CHR ''+''
      else CHR ''/'')"

text \<open>The decoder's table: 64 stands for a character that is not in the alphabet.\<close>

definition unbase64 :: "char \<Rightarrow> nat" where
  "unbase64 c =
     (let n = (of_char c :: nat) in
      if 65 \<le> n \<and> n \<le> 90 then n - 65
      else if 97 \<le> n \<and> n \<le> 122 then n - 71
      else if 48 \<le> n \<and> n \<le> 57 then n + 4
      else if c = CHR ''+'' \<or> c = CHR ''-'' then 62
      else if c = CHR ''/'' \<or> c = CHR ''_'' then 63
      else 64)"

fun buffer_to_base64 :: "nat list \<Rightarrow> string" where
  "buffer_to_base64 (x # y # z # rest) =
     b64_char (x div 4) # b64_char ((x mod 4) * 16 + y div 16) #
     b64_char ((y mod 16) * 4 + z div 64) # b64_char (z mod 64) # buffer_to_base64 rest"
| "buffer_to_base64 [x, y] =
     [b64_char (x div 4), b64_char ((x mod 4) * 16 + y div 16),
      b64_char ((y mod 16) * 4), CHR ''='']"
| "buffer_to_base64 [x] =
     [b64_char (x div 4), b64_char ((x mod 4) * 16), CHR ''='', CHR ''='']"
| "buffer_to_base64 [] = []"

fun sextets_to_bytes :: "nat list \<Rightarrow> nat list" where
  "sextets_to_bytes (a # b # c # d # rest) =
     (a * 4 + b div 16) # ((b mod 16) * 16 + c div 4) # ((c mod 4) * 64 + d) #
     sextets_to_bytes rest"
| "sextets_to_bytes [a, b, c] = [a * 4 + b div 16, (b mod 16) * 16 + c div 4]"
| "sextets_to_bytes [a, b] = [a * 4 + b div 16]"
| "sextets_to_bytes [a] = []"
| "sextets_to_bytes [] = []"

definition is_b64_char :: "char \<Rightarrow> bool" where
  "is_b64_char c = (unbase64 c < 64)"

definition not_pad :: "char \<Rightarrow> bool" where
  "not_pad c = (c \<noteq> CHR ''='')"

definition base64_decode :: "string \<Rightarrow> nat list" where
  "base64_decode s = sextets_to_bytes (map unbase64 (filter is_b64_char (takeWhile not_pad s)))"

text \<open>
  \<^verbatim>\<open>Buffer.from(v, "base64")\<close> throws a TypeError on \<^verbatim>\<open>undefined\<close>, \<^verbatim>\<open>null\<close>,
  numbers and booleans. The telephony protocol carries the payload as a string; an array or
  object payload (which Node would read as an array-like, ignoring the encoding) is outside
  the protocol and is not modelled further: it is put with the values that throw.
\<close>

fun buffer_from_base64 :: "json \<Rightarrow> js_error + nat list" where
  "buffer_from_base64 (JStr s) = Inr (base64_decode s)"
| "buffer_from_base64 v = Inl TypeError"

text \<open>
  A canonical base64 string, as a conforming encoder writes it (RFC 4648): groups of four
  characters of the standard alphabet, the last group possibly padded with one or two
  \<^verbatim>\<open>=\<close>, the unused bits before the padding being zero.
\<close>

definition std_char :: "char \<Rightarrow> bool" where
  "std_char c = (is_b64_char c \<and> c \<noteq> CHR ''-'' \<and> c \<noteq> CHR ''_'')"

fun valid_base64 :: "string \<Rightarrow> bool" where
  "valid_base64 [] = True"
| "valid_base64 [a, b, c, d] =
     (std_char a \<and> std_char b \<and>
      (if c = CHR ''='' then d = CHR ''='' \<and> unbase64 b mod 16 = 0
       else if d = CHR ''='' then std_char c \<and> unbase64 c mod 4 = 0
       else std_char c \<and> std_char d))"
| "valid_base64 (a # b # c # d # rest) =
     (std_char a \<and> std_char b \<and> std_char c \<and> std_char d \<and> valid_base64 rest)"
| "valid_base64 s = False"

section \<open>The call session\<close>

text \<open>
  One session per telephony connection: the variables of the closure of the
  \<^verbatim>\<open>/outbound-media-stream\<close> handler, followed by the part of the runtime the handlers
  read and change: the ready state of the telephony socket \<^verbatim>\<open>ws\<close>; every agent
  socket created so far (a socket is named by its index), with its ready state and whether
  it has emitted its error event (the socket library emits at most one per socket); the
  pending \<^verbatim>\<open>setTimeout\<close> callbacks; the number of \<^verbatim>\<open>setupElevenLabs\<close> runs that
  wait for \<^verbatim>\<open>getSignedUrl\<close>; and whether an uncaught error has ended the process.
  Console output is not modelled.
\<close>

datatype ready_state = CONNECTING | OPEN | CLOSING | CLOSED

datatype timer_cb = Reconnect | CloseTwilio

record call_session =
  streamSid :: json
  callSid :: json
  elevenLabsWs :: "nat option"
  customParameters :: json
  audioPacketCount :: nat
  isCallActive :: bool
  ws_readyState :: ready_state
  el_sockets :: "(ready_state \<times> bool) list"
  timers :: "(timer_cb \<times> nat) list"
  pending_setups :: nat
  process_exited :: bool

text \<open>
  The calls a handler makes on the sockets, the timer and the agent service, each recorded
  when it returns. \<^verbatim>\<open>send\<close> throws on a socket that is still connecting; the
  telephony socket is open when the session starts and never is.
\<close>

datatype effect =
    WsSend json
  | WsClose
  | ElSend nat json
  | ElClose nat int string
  | GetSignedUrl
  | NewWebSocket nat
  | SetTimeout timer_cb nat

fun is_ws_send :: "effect \<Rightarrow> bool" where
  "is_ws_send (WsSend f) = True"
| "is_ws_send e = False"

definition initial_session :: call_session where
  "initial_session =
     \<lparr>streamSid = JNull, callSid = JNull, elevenLabsWs = None, customParameters = JNull,
      audioPacketCount = 0, isCallActive = False, ws_readyState = OPEN, el_sockets = [],
      timers = [], pending_setups = 0, process_exited = False\<rparr>"

text \<open>\<^verbatim>\<open>elevenLabsWs?.readyState === WebSocket.OPEN\<close>\<close>

definition agent_open :: "call_session \<Rightarrow> bool" where
  "agent_open s =
     (case elevenLabsWs s of
        None \<Rightarrow> False
      | Some h \<Rightarrow> h < length (el_sockets s) \<and> fst (el_sockets s ! h) = OPEN)"

text \<open>
  The socket in \<^verbatim>\<open>elevenLabsWs\<close> is still connecting, so that
  \<^verbatim>\<open>elevenLabsWs.send\<close> throws.
\<close>

definition agent_connecting :: "call_session \<Rightarrow> bool" where
  "agent_connecting s =
     (case elevenLabsWs s of
        None \<Rightarrow> False
      | Some h \<Rightarrow> h < length (el_sockets s) \<and> fst (el_sockets s ! h) = CONNECTING)"

text \<open>\<^verbatim>\<open>elevenLabsWs.close(1000, reason)\<close>: the socket starts its closing handshake.\<close>

definition close_agent :: "call_session \<Rightarrow> string \<Rightarrow> call_session \<times> effect list" where
  "close_agent s reason =
     (case elevenLabsWs s of
        None \<Rightarrow> (s, [])
      | Some h \<Rightarrow>
          (s\<lparr>el_sockets := (el_sockets s)[h := (CLOSING, snd (el_sockets s ! h))]\<rparr>,
           [ElClose h 1000 reason]))"

section \<open>Agent leg\<close>

text \<open>
  \<^verbatim>\<open>getSignedUrl\<close>: the request fails, or the response is not ok, or its body is not
  JSON: an error is thrown (after being logged). Otherwise the \<^verbatim>\<open>signed_url\<close>
  property of the body is returned.
\<close>

datatype http_result = FetchRejected | HttpResponse bool parsed

fun getSignedUrl :: "http_result \<Rightarrow> js_error + json" where
  "getSignedUrl FetchRejected = Inl Error"
| "getSignedUrl (HttpResponse ok body) =
     (if \<not> ok then Inl Error
      else (case body of SyntaxError \<Rightarrow> Inl Error | Parsed data \<Rightarrow> dot data ''signed_url''))"

text \<open>
  \<^verbatim>\<open>new WebSocket(signedUrl)\<close> throws when its argument does not read as a WebSocket
  URL. Whether a string does (\<open>accepted\<close>) is left to the environment; an array is
  turned into a string first; \<^verbatim>\<open>undefined\<close> (a response without
  \<^verbatim>\<open>signed_url\<close>), \<^verbatim>\<open>null\<close>, numbers, booleans and objects never do.
\<close>

fun websocket_accepts :: "json \<Rightarrow> bool \<Rightarrow> bool" where
  "websocket_accepts (JStr u) accepted = accepted"
| "websocket_accepts (JArr xs) accepted = accepted"
| "websocket_accepts v accepted = False"

text \<open>
  \<^verbatim>\<open>setupElevenLabs\<close> runs in two parts. The first part calls \<^verbatim>\<open>getSignedUrl\<close> and
  waits. The second part runs when the request has settled: with a URL it calls
  \<^verbatim>\<open>new WebSocket(signedUrl)\<close>, stores the new socket in \<^verbatim>\<open>elevenLabsWs\<close> and
  registers the four handlers. The \<^verbatim>\<open>catch\<close> block logs the error and does nothing
  else.
\<close>

definition setupElevenLabs :: "call_session \<Rightarrow> call_session \<times> effect list" where
  "setupElevenLabs s = (s\<lparr>pending_setups := Suc (pending_setups s)\<rparr>, [GetSignedUrl])"

definition setupElevenLabs_resume ::
  "call_session \<Rightarrow> http_result \<Rightarrow> bool \<Rightarrow> call_session \<times> effect list" where
  "setupElevenLabs_resume s r accepted =
     (let s' = s\<lparr>pending_setups := pending_setups s - 1\<rparr> in
      case getSignedUrl r of
        Inl err \<Rightarrow> (s', [])
      | Inr signedUrl \<Rightarrow>
          if websocket_accepts signedUrl accepted
          then (s'\<lparr>elevenLabsWs := Some (length (el_sockets s)),
                    el_sockets := el_sockets s @ [(CONNECTING, False)]\<rparr>,
                [NewWebSocket (length (el_sockets s))])
          else (s', []))"

text \<open>
  The non-ASCII name of the default organization, \<^verbatim>\<open>Dat\<close>, a with acute accent,
  \<^verbatim>\<open>gora\<close>, in UTF-8.
\<close>

definition default_organization :: string where
  "default_organization = ''Dat'' @ [CHR 0xC3, CHR 0xA1] @ ''gora''"

definition initialConfig :: "call_session \<Rightarrow> json" where
  "initialConfig s =
     JObj [(''type'', JStr ''conversation_initiation_client_data''),
           (''dynamic_variables'', JObj
              [(''client_id'',
                  js_or (js_or (opt_dot (customParameters s) ''client_id'') (callSid s))
                        (JStr ''unknown_call'')),
               (''phone_number'',
                  js_or (opt_dot (customParameters s) ''phone_number'') (JStr ''unknown_number'')),
               (''name'', js_or (opt_dot (customParameters s) ''name'') (JStr ''Cliente'')),
               (''organization'',
                  js_or (opt_dot (customParameters s) ''organization'')
                        (JStr default_organization)),
               (''credit_amount'',
                  js_or (opt_dot (customParameters s) ''credit_amount'') (JStr ''50000''))])]"

text \<open>
  The handlers of an agent socket read the variable \<^verbatim>\<open>elevenLabsWs\<close>, not the socket
  they were registered on; the variable is assigned before the handlers are registered, so
  it is never \<^verbatim>\<open>null\<close> when one of them runs. The open handler has no
  \<^verbatim>\<open>try\<close>: what it does when its \<^verbatim>\<open>send\<close> returns is given here, and the case
  that \<^verbatim>\<open>send\<close> throws is part of the step function below.
\<close>

definition on_agent_open :: "call_session \<Rightarrow> call_session \<times> effect list" where
  "on_agent_open s =
     (case elevenLabsWs s of
        None \<Rightarrow> (s, [])
      | Some h \<Rightarrow> (s, [ElSend h (initialConfig s)]))"

definition media_frame :: "json \<Rightarrow> json \<Rightarrow> json" where
  "media_frame sid payload =
     JObj [(''event'', JStr ''media''), (''streamSid'', sid),
           (''media'', JObj [(''payload'', payload)])]"

definition clear_frame :: "json \<Rightarrow> json" where
  "clear_frame sid = JObj [(''event'', JStr ''clear''), (''streamSid'', sid)]"

definition stop_frame :: "json \<Rightarrow> json" where
  "stop_frame sid = JObj [(''event'', JStr ''stop''), (''streamSid'', sid)]"

definition pong_message :: "json \<Rightarrow> json" where
  "pong_message event_id = JObj [(''type'', JStr ''pong''), (''event_id'', event_id)]"

text \<open>
  The message handler. A thrown error (the text is not JSON, the message is
  \<^verbatim>\<open>null\<close>, or the pong is sent on a socket that is still connecting) is caught and
  logged.
\<close>

definition on_agent_message :: "call_session \<Rightarrow> parsed \<Rightarrow> call_session \<times> effect list" where
  "on_agent_message s data =
     (case data of
        SyntaxError \<Rightarrow> (s, [])
      | Parsed message \<Rightarrow>
         (case dot message ''type'' of
            Inl err \<Rightarrow> (s, [])
          | Inr ty \<Rightarrow>
             if ty = JStr ''conversation_initiation_metadata'' then (s, [])
             else if ty = JStr ''audio'' then
               (if truthy (streamSid s) then
                  (if truthy (opt_dot (field message ''audio'') ''chunk'') then
                     (s, [WsSend (media_frame (streamSid s)
                                    (opt_dot (field message ''audio'') ''chunk''))])
                   else if truthy (opt_dot (field message ''audio_event'') ''audio_base_64'') then
                     (s, [WsSend (media_frame (streamSid s)
                                    (opt_dot (field message ''audio_event'') ''audio_base_64''))])
                   else (s, []))
                else (s, []))
             else if ty = JStr ''interruption'' then
               (if truthy (streamSid s) then (s, [WsSend (clear_frame (streamSid s))])
                else (s, []))
             else if ty = JStr ''ping'' then
               (if truthy (opt_dot (field message ''ping_event'') ''event_id'') then
                  (case elevenLabsWs s of
                     None \<Rightarrow> (s, [])
                   | Some h \<Rightarrow>
                       if agent_connecting s then (s, [])
                       else
                         (s, [ElSend h (pong_message
                                          (opt_dot (field message ''ping_event'') ''event_id''))]))
                else (s, []))
             else if ty = JStr ''agent_response'' then (s, [])
             else if ty = JStr ''user_transcript'' then (s, [])
             else (s, [])))"

definition on_agent_error :: "call_session \<Rightarrow> call_session \<times> effect list" where
  "on_agent_error s =
     (s\<lparr>timers := timers s @ [(Reconnect, 3000)]\<rparr>, [SetTimeout Reconnect 3000])"

definition on_agent_close :: "call_session \<Rightarrow> int \<Rightarrow> call_session \<times> effect list" where
  "on_agent_close s code =
     (case (if isCallActive s \<and> truthy (streamSid s)
            then (s\<lparr>isCallActive := False, timers := timers s @ [(CloseTwilio, 2000)]\<rparr>,
                  [WsSend (stop_frame (streamSid s)), SetTimeout CloseTwilio 2000])
            else (s, [])) of
        (s1, out1) \<Rightarrow>
          if code \<noteq> 1000 \<and> isCallActive s1
          then (s1\<lparr>timers := timers s1 @ [(Reconnect, 3000)]\<rparr>,
                out1 @ [SetTimeout Reconnect 3000])
          else (s1, out1))"

text \<open>The two timer callbacks: \<^verbatim>\<open>setupElevenLabs\<close> itself, and the delayed close.\<close>

fun timer_callback :: "timer_cb \<Rightarrow> call_session \<Rightarrow> call_session \<times> effect list" where
  "timer_callback Reconnect s = setupElevenLabs s"
| "timer_callback CloseTwilio s =
     (if ws_readyState s = OPEN then (s\<lparr>ws_readyState := CLOSING\<rparr>, [WsClose]) else (s, []))"

section \<open>Telephony leg\<close>

definition on_twilio_message :: "call_session \<Rightarrow> parsed \<Rightarrow> call_session \<times> effect list" where
  "on_twilio_message s data =
     (case data of
        SyntaxError \<Rightarrow> (s, [])
      | Parsed msg \<Rightarrow>
         (case dot msg ''event'' of
            Inl err \<Rightarrow> (s, [])
          | Inr ev \<Rightarrow>
             if ev = JStr ''start'' then
               (case dot (field msg ''start'') ''streamSid'' of
                  Inl err \<Rightarrow> (s, [])
                | Inr sid \<Rightarrow>
                    (s\<lparr>streamSid := sid,
                       callSid := field (field msg ''start'') ''callSid'',
                       customParameters := field (field msg ''start'') ''customParameters'',
                       isCallActive := True\<rparr>, []))
             else if ev = JStr ''media'' then
               (if agent_open s then
                  (case dot (field msg ''media'') ''payload'' of
                     Inl err \<Rightarrow> (s, [])
                   | Inr payload \<Rightarrow>
                      (case buffer_from_base64 payload of
                         Inl err \<Rightarrow> (s, [])
                       | Inr buf \<Rightarrow>
                          (case elevenLabsWs s of
                             None \<Rightarrow> (s, [])
                           | Some h \<Rightarrow>
                              (s, [ElSend h (JObj [(''user_audio_chunk'',
                                                     JStr (buffer_to_base64 buf))])]))))
                else (s, []))
             else if ev = JStr ''stop'' then
               (if agent_open (s\<lparr>isCallActive := False\<rparr>)
                then close_agent (s\<lparr>isCallActive := False\<rparr>) ''Call ended normally''
                else (s\<lparr>isCallActive := False\<rparr>, []))
             else (s, [])))"

definition on_twilio_close :: "call_session \<Rightarrow> call_session \<times> effect list" where
  "on_twilio_close s =
     (if agent_open (s\<lparr>isCallActive := False\<rparr>)
      then close_agent (s\<lparr>isCallActive := False\<rparr>) ''Twilio client disconnected''
      else (s\<lparr>isCallActive := False\<rparr>, []))"

section \<open>The session as a state machine\<close>

text \<open>
  What arrives from outside, one event per handler run. An event of an agent socket names
  the socket it arrives on, and the socket library has set that socket's ready state when
  the handler runs: a connecting socket opens; an open or closing socket delivers messages;
  a socket that is not closed and has not done so before emits its error event, and is
  closing from then on; a socket that is not closed closes. An event that the socket's
  state does not allow, or for a socket or timer that does not exist, does not happen and
  is ignored. When the open handler's \<^verbatim>\<open>send\<close> throws (the variable holds a later
  socket that is still connecting), nothing catches the error and the process ends.
\<close>

datatype event =
    TwilioMessage parsed
  | TwilioClosed
  | SignedUrlSettled http_result bool
  | AgentOpen nat
  | AgentMessage nat parsed
  | AgentError nat
  | AgentClosed nat int
  | TimerFired nat

definition socket_state :: "call_session \<Rightarrow> nat \<Rightarrow> ready_state option" where
  "socket_state s c = (if c < length (el_sockets s) then Some (fst (el_sockets s ! c)) else None)"

definition set_socket :: "call_session \<Rightarrow> nat \<Rightarrow> ready_state \<Rightarrow> bool \<Rightarrow> call_session" where
  "set_socket s c r e = s\<lparr>el_sockets := (el_sockets s)[c := (r, e)]\<rparr>"

definition error_emitted :: "call_session \<Rightarrow> nat \<Rightarrow> bool" where
  "error_emitted s c = snd (el_sockets s ! c)"

fun step :: "call_session \<Rightarrow> event \<Rightarrow> call_session \<times> effect list" where
  "step s (TwilioMessage data) = on_twilio_message s data"
| "step s TwilioClosed = on_twilio_close (s\<lparr>ws_readyState := CLOSED\<rparr>)"
| "step s (SignedUrlSettled r accepted) =
     (if 0 < pending_setups s then setupElevenLabs_resume s r accepted else (s, []))"
| "step s (AgentOpen c) =
     (if socket_state s c = Some CONNECTING
      then (if agent_connecting (set_socket s c OPEN (error_emitted s c))
            then ((set_socket s c OPEN (error_emitted s c))\<lparr>process_exited := True\<rparr>, [])
            else on_agent_open (set_socket s c OPEN (error_emitted s c)))
      else (s, []))"
| "step s (AgentMessage c data) =
     (if socket_state s c = Some OPEN \<or> socket_state s c = Some CLOSING
      then on_agent_message s data
      else (s, []))"
| "step s (AgentError c) =
     (if c < length (el_sockets s) \<and> socket_state s c \<noteq> Some CLOSED \<and> \<not> error_emitted s c
      then on_agent_error (set_socket s c CLOSING True)
      else (s, []))"
| "step s (AgentClosed c code) =
     (if c < length (el_sockets s) \<and> socket_state s c \<noteq> Some CLOSED
      then on_agent_close (set_socket s c CLOSED (error_emitted s c)) code
      else (s, []))"
| "step s (TimerFired k) =
     (if k < length (timers s)
      then timer_callback (fst (timers s ! k))
             (s\<lparr>timers := take k (timers s) @ drop (Suc k) (timers s)\<rparr>)
      else (s, []))"

text \<open>A run of events; nothing happens any more once the process has ended.\<close>

fun run :: "call_session \<Rightarrow> event list \<Rightarrow> call_session \<times> effect list" where
  "run s [] = (s, [])"
| "run s (e # es) =
     (if process_exited s then (s, [])
      else (case step s e of
              (s1, out1) \<Rightarrow> (case run s1 es of (s2, out2) \<Rightarrow> (s2, out1 @ out2))))"

text \<open>
  The connection handler: the session starts with a first call of
  \<^verbatim>\<open>setupElevenLabs\<close>.
\<close>

definition connection_opened :: call_session where
  "connection_opened = fst (setupElevenLabs initial_session)"

text \<open>
  The agent sockets that are live (connecting or open), and the pending reconnection timers.
\<close>

fun is_live :: "ready_state \<times> bool \<Rightarrow> bool" where
  "is_live (CONNECTING, e) = True"
| "is_live (OPEN, e) = True"
| "is_live (CLOSING, e) = False"
| "is_live (CLOSED, e) = False"

definition live_connections :: "call_session \<Rightarrow> nat" where
  "live_connections s = length (filter is_live (el_sockets s))"

fun is_reconnect :: "timer_cb \<times> nat \<Rightarrow> bool" where
  "is_reconnect (Reconnect, d) = True"
| "is_reconnect (CloseTwilio, d) = False"

definition pending_reconnects :: "call_session \<Rightarrow> nat" where
  "pending_reconnects s = length (filter is_reconnect (timers s))"




text \<open>A telephony message that the handler takes for a start event.\<close>

fun is_start :: "event \<Rightarrow> bool" where
  "is_start (TwilioMessage (Parsed msg)) = (field msg ''event'' = JStr ''start'')"
| "is_start e = False"

text \<open>The property names of an object, in order.\<close>

fun keys :: "json \<Rightarrow> string list" where
  "keys (JObj kvs) = map fst kvs"
| "keys v = []"

section \<open>Scenarios\<close>

text \<open>
  Concrete inputs for the examples below: the start event of the end-to-end scenario
  (stream \<^verbatim>\<open>ST1\<close>, call \<^verbatim>\<open>CA1\<close>, custom parameter \<^verbatim>\<open>name = Ana\<close>), a start
  event whose \<^verbatim>\<open>start\<close> object has no \<^verbatim>\<open>streamSid\<close>, a stop event, a successful
  answer of the agent service, and some agent messages.
\<close>

definition start_ST1 :: parsed where
  "start_ST1 =
     Parsed (JObj [(''event'', JStr ''start''),
                   (''start'', JObj [(''streamSid'', JStr ''ST1''), (''callSid'', JStr ''CA1''),
                                     (''customParameters'', JObj [(''name'', JStr ''Ana'')])])])"

definition start_without_sid :: parsed where
  "start_without_sid =
     Parsed (JObj [(''event'', JStr ''start''), (''start'', JObj [(''callSid'', JStr ''CA1'')])])"

definition stop_event :: parsed where
  "stop_event = Parsed (JObj [(''event'', JStr ''stop'')])"

definition media_event :: "string \<Rightarrow> json" where
  "media_event p = JObj [(''event'', JStr ''media''), (''media'', JObj [(''payload'', JStr p)])]"

definition url_ok :: http_result where
  "url_ok = HttpResponse True (Parsed (JObj [(''signed_url'', JStr ''wss://agent/conv'')]))"

definition url_missing :: http_result where
  "url_missing = HttpResponse True (Parsed (JObj [(''detail'', JStr ''no agent'')]))"

definition audio_chunk_msg :: json where
  "audio_chunk_msg =
     JObj [(''type'', JStr ''audio''), (''audio'', JObj [(''chunk'', JStr ''TWFu'')])]"

definition audio_event_msg :: json where
  "audio_event_msg =
     JObj [(''type'', JStr ''audio''),
           (''audio_event'', JObj [(''audio_base_64'', JStr ''TWE=''), (''event_id'', JNum 7)])]"

definition interruption_msg :: json where
  "interruption_msg =
     JObj [(''type'', JStr ''interruption''), (''interruption_event'', JObj [(''event_id'', JNum 8)])]"

definition ping_msg :: "json \<Rightarrow> json" where
  "ping_msg event_id =
     JObj [(''type'', JStr ''ping''),
           (''ping_event'', JObj [(''event_id'', event_id), (''ping_ms'', JNum 50)])]"

definition ping_without_id :: json where
  "ping_without_id = JObj [(''type'', JStr ''ping''), (''ping_event'', JObj [(''ping_ms'', JNum 50)])]"

text \<open>The session once the first agent socket is open, and once the call has started.\<close>

definition agent_connected :: call_session where
  "agent_connected = fst (run connection_opened [SignedUrlSettled url_ok True, AgentOpen 0])"

definition call_started :: call_session where
  "call_started = fst (run agent_connected [TwilioMessage start_ST1])"

lemmas scenario_defs =
  start_ST1_def start_without_sid_def stop_event_def media_event_def url_ok_def url_missing_def
  audio_chunk_msg_def audio_event_msg_def interruption_msg_def ping_msg_def ping_without_id_def
  agent_connected_def call_started_def

lemmas handler_defs =
  on_twilio_message_def on_twilio_close_def on_agent_open_def on_agent_message_def
  on_agent_error_def on_agent_close_def setupElevenLabs_def setupElevenLabs_resume_def
  connection_opened_def initial_session_def agent_open_def close_agent_def dot_def opt_dot_def
  js_or_def initialConfig_def media_frame_def clear_frame_def stop_frame_def pong_message_def
  live_connections_def pending_reconnects_def agent_connecting_def socket_state_def set_socket_def
  error_emitted_def

section \<open>Base64: decoding and encoding again\<close>

lemma std_char_lt: "std_char c \<Longrightarrow> unbase64 c < 64"
  by (simp add: std_char_def is_b64_char_def)

lemma unbase64_pad: "unbase64 CHR ''='' = 64"
  by (simp add: unbase64_def)

lemma pad_dropped: "not_pad CHR ''='' = False"
  by (simp add: not_pad_def)

lemma std_char_keep: "std_char c \<Longrightarrow> is_b64_char c \<and> not_pad c"
  unfolding std_char_def is_b64_char_def not_pad_def
  using unbase64_pad by auto

text \<open>The encoder's table inverts the decoder's on the standard alphabet.\<close>

lemma b64_char_unbase64:
  assumes "std_char c"
  shows "b64_char (unbase64 c) = c"
proof -
  define n where "n = (of_char c :: nat)"
  have c: "char_of n = c" by (simp add: n_def)
  have lt: "unbase64 c < 64" using assms by (rule std_char_lt)
  have ne: "c \<noteq> CHR ''-''" "c \<noteq> CHR ''_''" using assms by (simp_all add: std_char_def)
  consider (upper) "65 \<le> n \<and> n \<le> 90"
    | (lower) "\<not> (65 \<le> n \<and> n \<le> 90)" "97 \<le> n \<and> n \<le> 122"
    | (digit) "\<not> (65 \<le> n \<and> n \<le> 90)" "\<not> (97 \<le> n \<and> n \<le> 122)" "48 \<le> n \<and> n \<le> 57"
    | (other) "\<not> (65 \<le> n \<and> n \<le> 90)" "\<not> (97 \<le> n \<and> n \<le> 122)" "\<not> (48 \<le> n \<and> n \<le> 57)"
    by blast
  then show ?thesis
  proof cases
    case upper
    have u: "unbase64 c = n - 65" using upper by (simp add: unbase64_def n_def)
    have "n - 65 < 26" "65 + (n - 65) = n" using upper by arith+
    then have "b64_char (n - 65) = char_of n" by (simp only: b64_char_def if_True)
    then show ?thesis using u c by simp
  next
    case lower
    have u: "unbase64 c = n - 71" using lower by (simp add: unbase64_def n_def)
    have "\<not> n - 71 < 26" "n - 71 < 52" "71 + (n - 71) = n" using lower by arith+
    then have "b64_char (n - 71) = char_of n" by (simp only: b64_char_def if_True if_False)
    then show ?thesis using u c by simp
  next
    case digit
    have u: "unbase64 c = n + 4" using digit by (simp add: unbase64_def n_def)
    have "\<not> n + 4 < 26" "\<not> n + 4 < 52" "n + 4 < 62" "n + 4 - 4 = n" using digit by arith+
    then have "b64_char (n + 4) = char_of n" by (simp only: b64_char_def if_True if_False)
    then show ?thesis using u c by simp
  next
    case other
    then have u: "unbase64 c = (if c = CHR ''+'' then 62 else if c = CHR ''/'' then 63 else 64)"
      using ne by (auto simp add: unbase64_def n_def Let_def)
    show ?thesis
    proof (cases "c = CHR ''+''")
      case True
      then show ?thesis by (simp add: unbase64_def b64_char_def)
    next
      case False
      then have "c = CHR ''/''" using u lt by (simp split: if_splits)
      then show ?thesis by (simp add: unbase64_def b64_char_def)
    qed
  qed
qed

text \<open>Four sextets packed into three bytes and unpacked again.\<close>

lemma group4:
  assumes "b < 64" "c < 64" "d < 64"
  shows "(a * 4 + b div 16) div 4 = (a::nat)"
    and "((a * 4 + b div 16) mod 4) * 16 + ((b mod 16) * 16 + c div 4) div 16 = b"
    and "(((b mod 16) * 16 + c div 4) mod 16) * 4 + ((c mod 4) * 64 + d) div 64 = c"
    and "((c mod 4) * 64 + d) mod 64 = d"
  using assms by simp_all

lemma group3:
  assumes "c < 64" "c mod 4 = 0"
  shows "(((b mod 16) * 16 + c div 4) mod 16) * 4 = (c::nat)"
proof -
  have "c = (c div 4) * 4" using assms(2) by (simp add: mod_eq_0_iff_dvd)
  moreover have "((b mod 16) * 16 + c div 4) mod 16 = c div 4" using assms(1) by simp
  ultimately show ?thesis by simp
qed

lemma group2:
  assumes "b < 64" "b mod 16 = 0"
  shows "((a * 4 + b div 16) mod 4) * 16 = (b::nat)"
proof -
  have "b = (b div 16) * 16" using assms(2) by (simp add: mod_eq_0_iff_dvd)
  moreover have "(a * 4 + b div 16) mod 4 = b div 16" using assms(1) by simp
  ultimately show ?thesis by simp
qed

lemma decode_group:
  assumes "std_char a" "std_char b" "std_char c" "std_char d"
  shows "base64_decode (a # b # c # d # rest) =
     (unbase64 a * 4 + unbase64 b div 16) # ((unbase64 b mod 16) * 16 + unbase64 c div 4) #
     ((unbase64 c mod 4) * 64 + unbase64 d) # base64_decode rest"
  using assms [THEN std_char_keep]
  by (simp only: base64_decode_def takeWhile.simps filter.simps list.map sextets_to_bytes.simps
        if_True)

lemma encode_group:
  assumes "std_char a" "std_char b" "std_char c" "std_char d"
  shows "buffer_to_base64 ((unbase64 a * 4 + unbase64 b div 16) #
           ((unbase64 b mod 16) * 16 + unbase64 c div 4) #
           ((unbase64 c mod 4) * 64 + unbase64 d) # bs) = a # b # c # d # buffer_to_base64 bs"
  using assms [THEN std_char_lt] assms [THEN b64_char_unbase64]
  by (simp only: buffer_to_base64.simps group4)

lemma decode_pad2:
  assumes "std_char a" "std_char b"
  shows "base64_decode [a, b, CHR ''='', d] = [unbase64 a * 4 + unbase64 b div 16]"
  using assms [THEN std_char_keep] pad_dropped
  by (simp only: base64_decode_def takeWhile.simps filter.simps list.map sextets_to_bytes.simps
        if_True if_False)

lemma encode_pad2:
  assumes "std_char a" "std_char b" "unbase64 b mod 16 = 0"
  shows "buffer_to_base64 [unbase64 a * 4 + unbase64 b div 16] = [a, b, CHR ''='', CHR ''='']"
  using assms(1,2) [THEN std_char_lt] assms(1,2) [THEN b64_char_unbase64] assms(3)
  by (simp only: buffer_to_base64.simps group4 group2)

lemma decode_pad1:
  assumes "std_char a" "std_char b" "std_char c"
  shows "base64_decode [a, b, c, CHR ''=''] =
     [unbase64 a * 4 + unbase64 b div 16, (unbase64 b mod 16) * 16 + unbase64 c div 4]"
  using assms [THEN std_char_keep] pad_dropped
  by (simp only: base64_decode_def takeWhile.simps filter.simps list.map sextets_to_bytes.simps
        if_True if_False)

lemma encode_pad1:
  assumes "std_char a" "std_char b" "std_char c" "unbase64 c mod 4 = 0"
  shows "buffer_to_base64
           [unbase64 a * 4 + unbase64 b div 16, (unbase64 b mod 16) * 16 + unbase64 c div 4] =
         [a, b, c, CHR ''='']"
  using assms(1,2,3) [THEN std_char_lt] assms(1,2,3) [THEN b64_char_unbase64] assms(4)
  by (simp only: buffer_to_base64.simps group4 group3)

text \<open>
  On a canonical base64 string, \<^verbatim>\<open>Buffer.from(s, "base64").toString("base64")\<close>
  gives the string back.
\<close>

lemma valid_base64_round_trip:
  "valid_base64 s \<Longrightarrow> buffer_to_base64 (base64_decode s) = s"
proof (induction s rule: valid_base64.induct)
  case 1
  show ?case by (simp add: base64_decode_def)
next
  case (2 a b c d)
  then have ab: "std_char a" "std_char b" by simp_all
  show ?case
  proof (cases "c = CHR ''=''")
    case True
    with 2 have "d = CHR ''=''" "unbase64 b mod 16 = 0" by simp_all
    then show ?thesis using True decode_pad2 [OF ab] encode_pad2 [OF ab] by simp
  next
    case False
    note nc = False
    show ?thesis
    proof (cases "d = CHR ''=''")
      case True
      with 2 nc have "std_char c" "unbase64 c mod 4 = 0" by simp_all
      then show ?thesis using True decode_pad1 [OF ab] encode_pad1 [OF ab] by simp
    next
      case False
      with 2 nc have cd: "std_char c" "std_char d" by simp_all
      have "base64_decode [] = []" by (simp add: base64_decode_def)
      then show ?thesis
        using decode_group [OF ab cd, of "[]"] encode_group [OF ab cd, of "[]"] by simp
    qed
  qed
next
  case (3 a b c d v va)
  then have h: "std_char a" "std_char b" "std_char c" "std_char d" and r: "valid_base64 (v # va)"
    by simp_all
  show ?case
    using decode_group [OF h, of "v # va"] encode_group [OF h] 3(1) r by simp
qed simp_all

text \<open>
  The canonical strings are exactly what the encoder writes: every encoding of a byte list
  is canonical (and a canonical string is the encoding of its own decoding).
\<close>

lemma of_char_b64_char:
  "n < 64 \<Longrightarrow> (of_char (b64_char n) :: nat) =
     (if n < 26 then 65 + n else if n < 52 then 71 + n else if n < 62 then n - 4
      else if n = 62 then 43 else 47)"
  by (simp add: b64_char_def)

lemma b64_char_not_special:
  assumes "n < 64"
  shows "b64_char n \<noteq> CHR ''-'' \<and> b64_char n \<noteq> CHR ''_'' \<and> b64_char n \<noteq> CHR ''=''"
proof -
  have "(of_char (b64_char n) :: nat) \<noteq> 45 \<and> (of_char (b64_char n) :: nat) \<noteq> 95 \<and>
        (of_char (b64_char n) :: nat) \<noteq> 61"
    using assms by (simp add: of_char_b64_char) arith
  then show ?thesis by auto
qed

lemma unbase64_b64_char:
  assumes "n < 64"
  shows "unbase64 (b64_char n) = n"
proof -
  consider "n < 62" | "n = 62" | "n = 63" using assms by arith
  then show ?thesis
  proof cases
    case 1
    then show ?thesis
      unfolding unbase64_def Let_def by (simp add: of_char_b64_char) arith
  next
    case 2
    then show ?thesis by (simp add: unbase64_def b64_char_def)
  next
    case 3
    then show ?thesis by (simp add: unbase64_def b64_char_def)
  qed
qed

lemma std_char_b64_char: "n < 64 \<Longrightarrow> std_char (b64_char n)"
  by (simp add: std_char_def is_b64_char_def unbase64_b64_char b64_char_not_special)

lemma encoder_writes_valid_base64:
  "list_all (\<lambda>x. x < 256) bs \<Longrightarrow> valid_base64 (buffer_to_base64 bs)"
proof (induction bs rule: buffer_to_base64.induct)
  case (1 x y z rest)
  then have b: "x < 256" "y < 256" "z < 256" and r: "valid_base64 (buffer_to_base64 rest)"
    by simp_all
  have s: "x div 4 < 64" "(x mod 4) * 16 + y div 16 < 64" "(y mod 16) * 4 + z div 64 < 64"
    "z mod 64 < 64"
    using b by simp_all
  note st = s [THEN std_char_b64_char]
  note np = s [THEN b64_char_not_special]
  show ?case
  proof (cases "buffer_to_base64 rest")
    case Nil
    then show ?thesis using st np by simp
  next
    case (Cons v va)
    then show ?thesis using st r by simp
  qed
next
  case (2 x y)
  then have b: "x < 256" "y < 256" by simp_all
  have s: "x div 4 < 64" "(x mod 4) * 16 + y div 16 < 64" "(y mod 16) * 4 < 64"
    using b by simp_all
  note st = s [THEN std_char_b64_char]
  note np = s [THEN b64_char_not_special]
  have "unbase64 (b64_char ((y mod 16) * 4)) mod 4 = 0"
    using s(3) by (simp add: unbase64_b64_char)
  then show ?case using st np by simp
next
  case (3 x)
  then have b: "x < 256" by simp
  have s: "x div 4 < 64" "(x mod 4) * 16 < 64" using b by simp_all
  note st = s [THEN std_char_b64_char]
  have "unbase64 (b64_char ((x mod 4) * 16)) mod 16 = 0"
    using s(2) by (simp add: unbase64_b64_char)
  then show ?case using st by simp
next
  case 4
  show ?case by simp
qed

section \<open>Reconnection of the agent leg\<close>

text \<open>
  C1. After \<open>isCallActive\<close> has become false no reconnection of the agent leg should be
  performed. The code does perform one. An agent error during the call \<^verbatim>\<open>ST1\<close> schedules
  \<^verbatim>\<open>setupElevenLabs\<close>; the close of that socket (code 1006) ends the call: the stop
  frame is sent, the session is inactive, the telephony socket is closed by the 2000 ms
  timer. When the 3000 ms timer fires, \<^verbatim>\<open>setupElevenLabs\<close> runs without looking at the
  flag: it asks for a signed URL and opens agent socket 1. The same happens with the timer
  that the close handler itself schedules (which needs an active session without stream
  id) when a stop event arrives before the timer fires.
\<close>

theorem stale_reconnect_timer_opens_connection:
  "isCallActive (fst (run call_started
      [AgentError 0, AgentClosed 0 1006, TimerFired 1, TwilioClosed])) = False \<and>
   timers (fst (run call_started
      [AgentError 0, AgentClosed 0 1006, TimerFired 1, TwilioClosed])) = [(Reconnect, 3000)] \<and>
   snd (run (fst (run call_started
      [AgentError 0, AgentClosed 0 1006, TimerFired 1, TwilioClosed]))
      [TimerFired 0, SignedUrlSettled url_ok True]) = [GetSignedUrl, NewWebSocket 1] \<and>
   isCallActive (fst (run agent_connected
      [TwilioMessage start_without_sid, AgentClosed 0 1006, TwilioMessage stop_event])) = False \<and>
   timers (fst (run agent_connected
      [TwilioMessage start_without_sid, AgentClosed 0 1006, TwilioMessage stop_event])) =
     [(Reconnect, 3000)] \<and>
   snd (run (fst (run agent_connected
      [TwilioMessage start_without_sid, AgentClosed 0 1006, TwilioMessage stop_event]))
      [TimerFired 0, SignedUrlSettled url_ok True]) = [GetSignedUrl, NewWebSocket 1]"
  by (simp add: handler_defs scenario_defs)

text \<open>
  C3 as stated fails. The call \<^verbatim>\<open>ST1\<close> is active and the first request for a signed URL
  is rejected: the session is left with no agent socket, no pending setup and no timer, and
  nothing was sent or scheduled. The failure is logged and the setup abandoned.
\<close>

theorem failed_fetch_is_abandoned:
  "isCallActive (fst (run connection_opened
      [TwilioMessage start_ST1, SignedUrlSettled FetchRejected True])) = True \<and>
   snd (run connection_opened
      [TwilioMessage start_ST1, SignedUrlSettled FetchRejected True]) = [] \<and>
   timers (fst (run connection_opened
      [TwilioMessage start_ST1, SignedUrlSettled FetchRejected True])) = [] \<and>
   pending_setups (fst (run connection_opened
      [TwilioMessage start_ST1, SignedUrlSettled FetchRejected True])) = 0 \<and>
   elevenLabsWs (fst (run connection_opened
      [TwilioMessage start_ST1, SignedUrlSettled FetchRejected True])) = None"
  by (simp add: handler_defs scenario_defs)

text \<open>
  C3, amended. When \<^verbatim>\<open>getSignedUrl\<close> throws or the WebSocket constructor throws, the
  setup run ends in its \<^verbatim>\<open>catch\<close> block: nothing is sent, no timer is added and no
  agent socket is created, whatever the active flag is. When the failure is reported by the
  error event of an agent socket that was created (connecting or open), a retry of the
  setup is scheduled after 3000 ms.
\<close>

theorem setup_failure_not_retried:
  "(getSignedUrl r = Inl e \<or>
    (getSignedUrl r = Inr u \<and> websocket_accepts u accepted = False) \<longrightarrow>
      step s (SignedUrlSettled r accepted) =
        (if 0 < pending_setups s then s\<lparr>pending_setups := pending_setups s - 1\<rparr> else s, [])) \<and>
   (socket_state s c = Some CONNECTING \<or> socket_state s c = Some OPEN \<longrightarrow>
    error_emitted s c = False \<longrightarrow>
      snd (step s (AgentError c)) = [SetTimeout Reconnect 3000] \<and>
      timers (fst (step s (AgentError c))) = timers s @ [(Reconnect, 3000)])"
proof -
  have failed: "getSignedUrl r = Inl e \<or>
      (getSignedUrl r = Inr u \<and> websocket_accepts u accepted = False) \<longrightarrow>
      step s (SignedUrlSettled r accepted) =
        (if 0 < pending_setups s then s\<lparr>pending_setups := pending_setups s - 1\<rparr> else s, [])"
    by (auto simp add: setupElevenLabs_resume_def Let_def split: sum.splits)
  have reported: "socket_state s c = Some CONNECTING \<or> socket_state s c = Some OPEN \<longrightarrow>
      error_emitted s c = False \<longrightarrow>
      snd (step s (AgentError c)) = [SetTimeout Reconnect 3000] \<and>
      timers (fst (step s (AgentError c))) = timers s @ [(Reconnect, 3000)]"
    by (auto simp add: socket_state_def set_socket_def on_agent_error_def split: if_splits)
  show ?thesis using failed reported by simp
qed

text \<open>
  The active call \<^verbatim>\<open>ST1\<close> whose first setup is still waiting: the request for the signed
  URL is rejected, or it is answered without a \<^verbatim>\<open>signed_url\<close>; in both cases the session
  only loses its pending setup. On the started call with its open agent socket, the error
  event of that socket schedules the retry.
\<close>

theorem setup_failure_not_retried_witness:
  "getSignedUrl FetchRejected = Inl Error \<and>
   isCallActive (fst (run connection_opened [TwilioMessage start_ST1])) = True \<and>
   step (fst (run connection_opened [TwilioMessage start_ST1]))
     (SignedUrlSettled FetchRejected True) =
     ((fst (run connection_opened [TwilioMessage start_ST1]))\<lparr>pending_setups := 0\<rparr>, []) \<and>
   getSignedUrl url_missing = Inr JUndefined \<and>
   websocket_accepts JUndefined True = False \<and>
   step (fst (run connection_opened [TwilioMessage start_ST1]))
     (SignedUrlSettled url_missing True) =
     ((fst (run connection_opened [TwilioMessage start_ST1]))\<lparr>pending_setups := 0\<rparr>, []) \<and>
   socket_state call_started 0 = Some OPEN \<and> error_emitted call_started 0 = False \<and>
   snd (step call_started (AgentError 0)) = [SetTimeout Reconnect 3000] \<and>
   timers (fst (step call_started (AgentError 0))) = [(Reconnect, 3000)]"
proof -
  have f: "getSignedUrl FetchRejected = Inl Error" by simp
  have m: "getSignedUrl url_missing = Inr JUndefined"
    by (simp add: url_missing_def dot_def)
  have p: "pending_setups (fst (run connection_opened [TwilioMessage start_ST1])) = 1"
    "isCallActive (fst (run connection_opened [TwilioMessage start_ST1])) = True"
    by (simp_all add: handler_defs scenario_defs)
  have o: "socket_state call_started 0 = Some OPEN" "error_emitted call_started 0 = False"
    "timers call_started = []"
    by (simp_all add: handler_defs scenario_defs)
  show ?thesis
    using f m p o
      setup_failure_not_retried [of FetchRejected Error JUndefined True
        "fst (run connection_opened [TwilioMessage start_ST1])" 0]
      setup_failure_not_retried [of url_missing Error JUndefined True
        "fst (run connection_opened [TwilioMessage start_ST1])" 0]
      setup_failure_not_retried [of FetchRejected Error JUndefined True call_started 0]
    by simp
qed

text \<open>
  C5. The agent socket closes with code 1000 while the session is active. No reconnection
  timer is added. With a stream id, the handler sends the stop frame for that stream, marks
  the session inactive and schedules the 2000 ms callback, and nothing else; when that
  callback runs it closes the telephony socket if it is still open and does nothing
  otherwise. Without a stream id the handler does nothing.
\<close>

theorem normal_agent_close_ends_call:
  "isCallActive s \<Longrightarrow>
   pending_reconnects (fst (on_agent_close s 1000)) = pending_reconnects s \<and>
   on_agent_close s 1000 =
     (if truthy (streamSid s)
      then (s\<lparr>isCallActive := False, timers := timers s @ [(CloseTwilio, 2000)]\<rparr>,
            [WsSend (JObj [(''event'', JStr ''stop''), (''streamSid'', streamSid s)]),
             SetTimeout CloseTwilio 2000])
      else (s, [])) \<and>
   (truthy (streamSid s) \<longrightarrow>
      step (fst (on_agent_close s 1000)) (TimerFired (length (timers s))) =
        (if ws_readyState s = OPEN
         then (s\<lparr>isCallActive := False, ws_readyState := CLOSING\<rparr>, [WsClose])
         else (s\<lparr>isCallActive := False\<rparr>, [])))"
  by (simp add: on_agent_close_def pending_reconnects_def stop_frame_def)

theorem normal_agent_close_ends_call_witness:
  "isCallActive call_started \<and> truthy (streamSid call_started) \<and>
   pending_reconnects (fst (on_agent_close call_started 1000)) = 0 \<and>
   snd (on_agent_close call_started 1000) =
     [WsSend (JObj [(''event'', JStr ''stop''), (''streamSid'', JStr ''ST1'')]),
      SetTimeout CloseTwilio 2000] \<and>
   isCallActive (fst (on_agent_close call_started 1000)) = False \<and>
   snd (step (fst (on_agent_close call_started 1000)) (TimerFired 0)) = [WsClose]"
proof -
  have a: "isCallActive call_started" by (simp add: handler_defs scenario_defs)
  have f: "streamSid call_started = JStr ''ST1''" "timers call_started = []"
    "ws_readyState call_started = OPEN" "pending_reconnects call_started = 0"
    by (simp_all add: handler_defs scenario_defs)
  show ?thesis
    using a f normal_agent_close_ends_call [OF a] by (simp add: pending_reconnects_def)
qed

section \<open>One agent connection at a time\<close>



lemma filter_remove_drop:
  "k < length xs \<Longrightarrow> P (xs ! k) \<Longrightarrow>
   Suc (length (filter P (take k xs @ drop (Suc k) xs))) = length (filter P xs)"
proof -
  assume k: "k < length xs" and p: "P (xs ! k)"
  have "xs = take k xs @ xs ! k # drop (Suc k) xs" using k by (rule id_take_nth_drop)
  then have "length (filter P xs) = length (filter P (take k xs @ xs ! k # drop (Suc k) xs))"
    by simp
  then show ?thesis using p by simp
qed

lemma filter_remove_same:
  "k < length xs \<Longrightarrow> \<not> P (xs ! k) \<Longrightarrow>
   length (filter P (take k xs @ drop (Suc k) xs)) = length (filter P xs)"
proof -
  assume k: "k < length xs" and p: "\<not> P (xs ! k)"
  have "xs = take k xs @ xs ! k # drop (Suc k) xs" using k by (rule id_take_nth_drop)
  then have "length (filter P xs) = length (filter P (take k xs @ xs ! k # drop (Suc k) xs))"
    by simp
  then show ?thesis using p by simp
qed

lemma filter_remove_le:
  "length (filter P (take k xs @ drop (Suc k) xs)) \<le> length (filter P xs)"
proof (cases "k < length xs")
  case True
  then show ?thesis
    using filter_remove_drop [of k xs P] filter_remove_same [of k xs P] by (cases "P (xs ! k)") simp_all
next
  case False
  then show ?thesis by simp
qed




















section \<open>Agent messages\<close>

text \<open>
  As long as the stream id is falsy and no start event arrives, no handler changes the stream
  id and none sends anything to the telephony socket.
\<close>

lemma twilio_message_keeps_stream_id:
  assumes "is_start (TwilioMessage d) = False"
  shows "streamSid (fst (on_twilio_message s d)) = streamSid s \<and>
         filter is_ws_send (snd (on_twilio_message s d)) = []"
proof (cases d)
  case SyntaxError
  then show ?thesis by (simp add: on_twilio_message_def)
next
  case (Parsed msg)
  then have "field msg ''event'' \<noteq> JStr ''start''" using assms by simp
  then show ?thesis
    using Parsed
    by (simp add: on_twilio_message_def dot_def close_agent_def
          split: sum.splits option.splits)
qed

lemma step_without_stream_id:
  assumes "is_start e = False" "truthy (streamSid s) = False"
  shows "streamSid (fst (step s e)) = streamSid s \<and> filter is_ws_send (snd (step s e)) = []"
proof (cases e)
  case (TwilioMessage d)
  then show ?thesis using assms(1) twilio_message_keeps_stream_id by simp
next
  case TwilioClosed
  then show ?thesis
    by (simp add: on_twilio_close_def close_agent_def split: option.splits)
next
  case (SignedUrlSettled r accepted)
  then show ?thesis
    by (simp add: setupElevenLabs_resume_def Let_def split: sum.splits)
next
  case (AgentOpen c)
  then show ?thesis by (simp add: on_agent_open_def set_socket_def split: option.splits)
next
  case (AgentMessage c d)
  then show ?thesis
    using assms(2)
    by (simp add: on_agent_message_def split: parsed.splits sum.splits option.splits)
next
  case (AgentError c)
  then show ?thesis by (simp add: on_agent_error_def set_socket_def)
next
  case (AgentClosed c code)
  then show ?thesis using assms(2) by (simp add: on_agent_close_def set_socket_def)
next
  case (TimerFired k)
  then show ?thesis
    by (cases "fst (timers s ! k)") (simp_all add: setupElevenLabs_def)
qed

lemma run_without_stream_id:
  "filter is_start evs = [] \<Longrightarrow> truthy (streamSid s) = False \<Longrightarrow>
   streamSid (fst (run s evs)) = streamSid s \<and> filter is_ws_send (snd (run s evs)) = []"
proof (induction evs arbitrary: s)
  case Nil
  show ?case by simp
next
  case (Cons e es)
  show ?case
  proof (cases "process_exited s")
    case True
    then show ?thesis by simp
  next
    case False
    from Cons.prems(1) have e: "is_start e = False" and es: "filter is_start es = []"
      by (simp_all split: if_splits)
    obtain s1 out1 where st: "step s e = (s1, out1)" by (cases "step s e")
    have one: "streamSid s1 = streamSid s" "filter is_ws_send out1 = []"
      using step_without_stream_id [OF e Cons.prems(2)] st by simp_all
    then have f: "truthy (streamSid s1) = False" using Cons.prems(2) by simp
    obtain s2 out2 where r: "run s1 es = (s2, out2)" by (cases "run s1 es")
    have "streamSid s2 = streamSid s1" "filter is_ws_send out2 = []"
      using Cons.IH [OF es f] r by simp_all
    then show ?thesis using False one st r by simp
  qed
qed

text \<open>
  C2. While the stream id is unset (\<^verbatim>\<open>null\<close>, or any other falsy value), handling an
  agent message sends no frame at all to the telephony socket and leaves the session as it
  was, so nothing is kept for later; an audio or interruption message has no effect
  whatsoever. Over a whole run: whatever events arrive, as long as none is a start event no
  frame is ever sent to the telephony socket.
\<close>

theorem no_telephony_frame_without_stream_id:
  "\<not> truthy (streamSid s) \<Longrightarrow>
   fst (on_agent_message s d) = s \<and>
   filter is_ws_send (snd (on_agent_message s d)) = [] \<and>
   (field m ''type'' = JStr ''audio'' \<or> field m ''type'' = JStr ''interruption'' \<longrightarrow>
      on_agent_message s (Parsed m) = (s, [])) \<and>
   (filter is_start evs = [] \<longrightarrow> filter is_ws_send (snd (run s evs)) = [])"
proof -
  assume f: "\<not> truthy (streamSid s)"
  have handler: "fst (on_agent_message s d) = s \<and>
      filter is_ws_send (snd (on_agent_message s d)) = []"
    using f by (simp add: on_agent_message_def split: parsed.splits sum.splits option.splits)
  have dropped: "field m ''type'' = JStr ''audio'' \<or> field m ''type'' = JStr ''interruption'' \<longrightarrow>
      on_agent_message s (Parsed m) = (s, [])"
    using f by (cases m) (auto simp add: on_agent_message_def dot_def)
  have ever: "filter is_start evs = [] \<longrightarrow> filter is_ws_send (snd (run s evs)) = []"
    using f run_without_stream_id [of evs s] by simp
  show ?thesis using handler dropped ever by simp
qed

theorem no_telephony_frame_without_stream_id_witness:
  "\<not> truthy (streamSid agent_connected) \<and>
   field audio_chunk_msg ''type'' = JStr ''audio'' \<and>
   on_agent_message agent_connected (Parsed audio_chunk_msg) = (agent_connected, []) \<and>
   filter is_ws_send
     (snd (on_agent_message agent_connected (Parsed (ping_msg (JStr ''abc''))))) = [] \<and>
   filter is_start
     [AgentMessage 0 (Parsed audio_chunk_msg), AgentMessage 0 (Parsed interruption_msg),
      TwilioMessage stop_event, AgentClosed 0 1000] = [] \<and>
   filter is_ws_send (snd (run agent_connected
     [AgentMessage 0 (Parsed audio_chunk_msg), AgentMessage 0 (Parsed interruption_msg),
      TwilioMessage stop_event, AgentClosed 0 1000])) = []"
proof -
  have h: "\<not> truthy (streamSid agent_connected)"
    by (simp add: handler_defs scenario_defs)
  have t: "field audio_chunk_msg ''type'' = JStr ''audio''"
    by (simp add: scenario_defs)
  have n: "filter is_start
     [AgentMessage 0 (Parsed audio_chunk_msg), AgentMessage 0 (Parsed interruption_msg),
      TwilioMessage stop_event, AgentClosed 0 1000] = []"
    by (simp add: scenario_defs)
  show ?thesis
    using h t n
      no_telephony_frame_without_stream_id [OF h, of "Parsed (ping_msg (JStr ''abc''))"
        audio_chunk_msg
        "[AgentMessage 0 (Parsed audio_chunk_msg), AgentMessage 0 (Parsed interruption_msg),
          TwilioMessage stop_event, AgentClosed 0 1000]"]
    by simp
qed

text \<open>
  C6. The stream id is set (a non-empty string) and an audio message carries a non-empty
  base64 string, either in \<^verbatim>\<open>audio.chunk\<close> or, when that field is missing or
  falsy, in \<^verbatim>\<open>audio_event.audio_base_64\<close>. Then exactly one frame is sent to the telephony
  socket: a media frame for the session's stream id whose payload is the string received.
\<close>

theorem agent_audio_forwarded_unchanged:
  "streamSid s = JStr sid \<Longrightarrow> sid \<noteq> [] \<Longrightarrow> p \<noteq> [] \<Longrightarrow>
   field message ''type'' = JStr ''audio'' \<Longrightarrow>
   opt_dot (field message ''audio'') ''chunk'' = JStr p \<or>
   (truthy (opt_dot (field message ''audio'') ''chunk'') = False \<and>
    opt_dot (field message ''audio_event'') ''audio_base_64'' = JStr p) \<Longrightarrow>
   on_agent_message s (Parsed message) =
     (s, [WsSend (JObj [(''event'', JStr ''media''), (''streamSid'', JStr sid),
                        (''media'', JObj [(''payload'', JStr p)])])])"
  by (cases message) (auto simp add: on_agent_message_def dot_def media_frame_def)

theorem agent_audio_forwarded_unchanged_witness:
  "streamSid call_started = JStr ''ST1'' \<and>
   opt_dot (field audio_chunk_msg ''audio'') ''chunk'' = JStr ''TWFu'' \<and>
   on_agent_message call_started (Parsed audio_chunk_msg) =
     (call_started, [WsSend (JObj [(''event'', JStr ''media''), (''streamSid'', JStr ''ST1''),
                                   (''media'', JObj [(''payload'', JStr ''TWFu'')])])]) \<and>
   opt_dot (field audio_event_msg ''audio'') ''chunk'' = JUndefined \<and>
   opt_dot (field audio_event_msg ''audio_event'') ''audio_base_64'' = JStr ''TWE='' \<and>
   on_agent_message call_started (Parsed audio_event_msg) =
     (call_started, [WsSend (JObj [(''event'', JStr ''media''), (''streamSid'', JStr ''ST1''),
                                   (''media'', JObj [(''payload'', JStr ''TWE='')])])])"
proof -
  have sid: "streamSid call_started = JStr ''ST1''" "''ST1'' \<noteq> []"
    by (simp_all add: handler_defs scenario_defs)
  have ne: "''TWFu'' \<noteq> []" "''TWE='' \<noteq> []" by simp_all
  have ty: "field audio_chunk_msg ''type'' = JStr ''audio''"
    "field audio_event_msg ''type'' = JStr ''audio''"
    by (simp_all add: scenario_defs)
  have c1: "opt_dot (field audio_chunk_msg ''audio'') ''chunk'' = JStr ''TWFu''"
    by (simp add: scenario_defs opt_dot_def)
  have c2: "opt_dot (field audio_event_msg ''audio'') ''chunk'' = JUndefined"
    "opt_dot (field audio_event_msg ''audio_event'') ''audio_base_64'' = JStr ''TWE=''"
    by (simp_all add: scenario_defs opt_dot_def)
  show ?thesis
    using sid c1 c2
      agent_audio_forwarded_unchanged [OF sid ne(1) ty(1)]
      agent_audio_forwarded_unchanged [OF sid ne(2) ty(2)]
    by simp
qed

text \<open>
  C7. Every ping that carries an event identifier should be answered by one pong with that
  identifier. The handler tests the identifier for truthiness, which misses the identifier
  0: on the open agent socket the ping with \<^verbatim>\<open>event_id\<close> 7 is answered with the pong
  for 7, and the ping with \<^verbatim>\<open>event_id\<close> 0 is not answered at all.
\<close>

theorem ping_with_event_id_zero_unanswered:
  "field (ping_msg (JNum 0)) ''type'' = JStr ''ping'' \<and>
   opt_dot (field (ping_msg (JNum 0)) ''ping_event'') ''event_id'' = JNum 0 \<and>
   agent_open agent_connected \<and>
   on_agent_message agent_connected (Parsed (ping_msg (JNum 0))) = (agent_connected, []) \<and>
   on_agent_message agent_connected (Parsed (ping_msg (JNum 7))) =
     (agent_connected, [ElSend 0 (JObj [(''type'', JStr ''pong''), (''event_id'', JNum 7)])])"
  by (simp add: handler_defs scenario_defs)

text \<open>
  For every other identifier the handler does answer: a ping whose identifier is truthy
  gets exactly one pong with that identifier, on the session's agent socket, unless that
  socket is still connecting.
\<close>

lemma truthy_ping_answered:
  "field message ''type'' = JStr ''ping'' \<Longrightarrow>
   opt_dot (field message ''ping_event'') ''event_id'' = event_id \<Longrightarrow> truthy event_id \<Longrightarrow>
   elevenLabsWs s = Some h \<Longrightarrow> agent_connecting s = False \<Longrightarrow>
   on_agent_message s (Parsed message) =
     (s, [ElSend h (JObj [(''type'', JStr ''pong''), (''event_id'', event_id)])])"
  by (cases message) (auto simp add: on_agent_message_def dot_def pong_message_def)

text \<open>
  C10. A ping without \<^verbatim>\<open>ping_event.event_id\<close> (the field is missing, or
  \<^verbatim>\<open>ping_event\<close> itself is missing or \<^verbatim>\<open>null\<close>) has no effect: nothing is sent and
  the session, with the ready state of every socket, is unchanged. Whenever a ping does
  cause a message, the identifier was present.
\<close>

theorem ping_without_event_id_ignored:
  "field message ''type'' = JStr ''ping'' \<Longrightarrow>
   (opt_dot (field message ''ping_event'') ''event_id'' = JUndefined \<longrightarrow>
      on_agent_message s (Parsed message) = (s, [])) \<and>
   (snd (on_agent_message s (Parsed message)) \<noteq> [] \<longrightarrow>
      opt_dot (field message ''ping_event'') ''event_id'' \<noteq> JUndefined) \<and>
   fst (on_agent_message s (Parsed message)) = s"
  by (cases message) (auto simp add: on_agent_message_def dot_def split: option.splits)

theorem ping_without_event_id_ignored_witness:
  "field ping_without_id ''type'' = JStr ''ping'' \<and>
   opt_dot (field ping_without_id ''ping_event'') ''event_id'' = JUndefined \<and>
   on_agent_message agent_connected (Parsed ping_without_id) = (agent_connected, []) \<and>
   field (ping_msg (JStr ''abc'')) ''type'' = JStr ''ping'' \<and>
   snd (on_agent_message agent_connected (Parsed (ping_msg (JStr ''abc'')))) \<noteq> [] \<and>
   opt_dot (field (ping_msg (JStr ''abc'')) ''ping_event'') ''event_id'' \<noteq> JUndefined"
proof -
  have ty: "field ping_without_id ''type'' = JStr ''ping''"
    "field (ping_msg (JStr ''abc'')) ''type'' = JStr ''ping''"
    by (simp_all add: scenario_defs)
  have ev: "opt_dot (field ping_without_id ''ping_event'') ''event_id'' = JUndefined"
    by (simp add: scenario_defs opt_dot_def)
  have out: "snd (on_agent_message agent_connected (Parsed (ping_msg (JStr ''abc'')))) \<noteq> []"
    by (simp add: handler_defs scenario_defs)
  show ?thesis
    using ty ev out
      ping_without_event_id_ignored [OF ty(1), of agent_connected]
      ping_without_event_id_ignored [OF ty(2), of agent_connected]
    by simp
qed

text \<open>
  C8. On open exactly one message is sent, on the session's agent socket. It has two
  fields, the type \<^verbatim>\<open>conversation_initiation_client_data\<close> and the dynamic variables,
  so it carries no prompt and no first message. The dynamic variables are the five named
  ones; each is the custom parameter of that name when it is truthy, and otherwise (the
  parameters are unset, the field is missing or empty) the default: the call id or
  \<^verbatim>\<open>unknown_call\<close> for the client id, \<^verbatim>\<open>unknown_number\<close>, \<^verbatim>\<open>Cliente\<close>, the
  default organization and \<^verbatim>\<open>50000\<close>.
\<close>

theorem initial_config_dynamic_variables:
  "elevenLabsWs s = Some h \<Longrightarrow>
   on_agent_open s = (s, [ElSend h (initialConfig s)]) \<and>
   keys (initialConfig s) = [''type'', ''dynamic_variables''] \<and>
   field (initialConfig s) ''type'' = JStr ''conversation_initiation_client_data'' \<and>
   keys (field (initialConfig s) ''dynamic_variables'') =
     [''client_id'', ''phone_number'', ''name'', ''organization'', ''credit_amount''] \<and>
   field (field (initialConfig s) ''dynamic_variables'') ''name'' =
     (if truthy (opt_dot (customParameters s) ''name'')
      then opt_dot (customParameters s) ''name'' else JStr ''Cliente'') \<and>
   field (field (initialConfig s) ''dynamic_variables'') ''organization'' =
     (if truthy (opt_dot (customParameters s) ''organization'')
      then opt_dot (customParameters s) ''organization'' else JStr default_organization) \<and>
   field (field (initialConfig s) ''dynamic_variables'') ''credit_amount'' =
     (if truthy (opt_dot (customParameters s) ''credit_amount'')
      then opt_dot (customParameters s) ''credit_amount'' else JStr ''50000'') \<and>
   field (field (initialConfig s) ''dynamic_variables'') ''phone_number'' =
     (if truthy (opt_dot (customParameters s) ''phone_number'')
      then opt_dot (customParameters s) ''phone_number'' else JStr ''unknown_number'') \<and>
   field (field (initialConfig s) ''dynamic_variables'') ''client_id'' =
     (if truthy (opt_dot (customParameters s) ''client_id'')
      then opt_dot (customParameters s) ''client_id''
      else if truthy (callSid s) then callSid s else JStr ''unknown_call'')"
  by (simp add: on_agent_open_def initialConfig_def js_or_def)

text \<open>
  The end-to-end scenario: the start event of stream \<^verbatim>\<open>ST1\<close> with the one custom
  parameter \<^verbatim>\<open>name = Ana\<close> has arrived when the agent socket opens.
\<close>

theorem initial_config_dynamic_variables_witness:
  "elevenLabsWs (fst (run connection_opened
      [SignedUrlSettled url_ok True, TwilioMessage start_ST1])) = Some 0 \<and>
   snd (step (fst (run connection_opened
      [SignedUrlSettled url_ok True, TwilioMessage start_ST1])) (AgentOpen 0)) =
     [ElSend 0 (JObj [(''type'', JStr ''conversation_initiation_client_data''),
        (''dynamic_variables'', JObj
           [(''client_id'', JStr ''CA1''), (''phone_number'', JStr ''unknown_number''),
            (''name'', JStr ''Ana''), (''organization'', JStr default_organization),
            (''credit_amount'', JStr ''50000'')])])] \<and>
   field (field (initialConfig (fst (run connection_opened
      [SignedUrlSettled url_ok True, TwilioMessage start_ST1]))) ''dynamic_variables'') ''name'' =
     JStr ''Ana'' \<and>
   field (field (initialConfig (fst (run connection_opened
      [SignedUrlSettled url_ok True, TwilioMessage start_ST1]))) ''dynamic_variables'')
      ''organization'' = JStr default_organization"
proof -
  have el: "elevenLabsWs (fst (run connection_opened
      [SignedUrlSettled url_ok True, TwilioMessage start_ST1])) = Some 0"
    by (simp add: handler_defs scenario_defs)
  show ?thesis
    using el initial_config_dynamic_variables [OF el]
    by (simp add: handler_defs scenario_defs)
qed

section \<open>Telephony audio\<close>

text \<open>
  C9. A media event carries a canonical base64 string. Decoding it and encoding the bytes
  again gives the same string. If the agent socket is open, exactly one message is sent on
  it, whose only field \<^verbatim>\<open>user_audio_chunk\<close> is that string; if it is not open (or
  there is none), nothing is sent and nothing is kept.
\<close>

theorem telephony_media_forwarded_unchanged:
  "valid_base64 p \<Longrightarrow>
   field msg ''event'' = JStr ''media'' \<Longrightarrow>
   field (field msg ''media'') ''payload'' = JStr p \<Longrightarrow>
   buffer_to_base64 (base64_decode p) = p \<and>
   (agent_open s \<longrightarrow> elevenLabsWs s = Some h \<longrightarrow>
      on_twilio_message s (Parsed msg) = (s, [ElSend h (JObj [(''user_audio_chunk'', JStr p)])])) \<and>
   (\<not> agent_open s \<longrightarrow> on_twilio_message s (Parsed msg) = (s, []))"
proof -
  assume v: "valid_base64 p" and e: "field msg ''event'' = JStr ''media''"
    and m: "field (field msg ''media'') ''payload'' = JStr p"
  have rt: "buffer_to_base64 (base64_decode p) = p"
    using v by (rule valid_base64_round_trip)
  have nm: "\<not> nullish msg" using e by (cases msg) simp_all
  have nn: "\<not> nullish (field msg ''media'')" using m by (cases "field msg ''media''") simp_all
  show ?thesis
    using rt e m nm nn by (simp add: on_twilio_message_def dot_def)
qed

theorem telephony_media_forwarded_unchanged_witness:
  "valid_base64 ''TWFuTQ=='' \<and>
   buffer_to_base64 (base64_decode ''TWFuTQ=='') = ''TWFuTQ=='' \<and>
   agent_open call_started \<and> elevenLabsWs call_started = Some 0 \<and>
   on_twilio_message call_started (Parsed (media_event ''TWFuTQ=='')) =
     (call_started, [ElSend 0 (JObj [(''user_audio_chunk'', JStr ''TWFuTQ=='')])]) \<and>
   \<not> agent_open connection_opened \<and>
   on_twilio_message connection_opened (Parsed (media_event ''TWFuTQ=='')) =
     (connection_opened, [])"
proof -
  have v: "valid_base64 ''TWFuTQ==''"
    by (simp add: std_char_def is_b64_char_def unbase64_def)
  have e: "field (media_event ''TWFuTQ=='') ''event'' = JStr ''media''"
    by (simp add: scenario_defs)
  have m: "field (field (media_event ''TWFuTQ=='') ''media'') ''payload'' = JStr ''TWFuTQ==''"
    by (simp add: scenario_defs)
  have o: "agent_open call_started" "elevenLabsWs call_started = Some 0"
    "\<not> agent_open connection_opened"
    by (simp_all add: handler_defs scenario_defs)
  show ?thesis
    using v o
      telephony_media_forwarded_unchanged [OF v e m, of call_started 0]
      telephony_media_forwarded_unchanged [OF v e m, of connection_opened 0]
    by simp
qed

end
